theory Spec2Isabelle
  imports Main "HOL-Library.Word" "HOL-Library.Dlist"
begin

section \<open>JavaScript values\<close>

text \<open>
  The server is JavaScript: what a socket event or a request body carries is any JSON
  value, and a property that is absent reads as \<open>undefined\<close>. A JavaScript string is a
  sequence of UTF-16 code units; \<open>length\<close> and \<open>slice\<close> count code units.
  Numbers are the integers of magnitude below \<open>10^21\<close>: from there on JavaScript prints a
  number with an exponent, and fractions are left out as well.
\<close>

type_synonym jsstring = "16 word list"

datatype jsval =
    JUndefined
  | JNull
  | JBool bool
  | JNum int
  | JStr jsstring
  | JArr "jsval list"
  | JObj "(jsstring \<times> jsval) list"

datatype js_error = TypeError

text \<open>A string literal of the source, as code units.\<close>

definition lit :: "string \<Rightarrow> jsstring" where
  "lit s = map (\<lambda>c. of_char c) s"

text \<open>ToBoolean: \<open>undefined\<close>, \<open>null\<close>, \<open>false\<close>, \<open>0\<close> and \<open>""\<close> are falsy.\<close>

fun truthy :: "jsval \<Rightarrow> bool" where
  "truthy JUndefined = False"
| "truthy JNull = False"
| "truthy (JBool b) = b"
| "truthy (JNum n) = (n \<noteq> 0)"
| "truthy (JStr s) = (s \<noteq> [])"
| "truthy (JArr xs) = True"
| "truthy (JObj kvs) = True"

text \<open>\<open>a || b\<close>\<close>

definition js_or :: "jsval \<Rightarrow> jsval \<Rightarrow> jsval" where
  "js_or a b = (if truthy a then a else b)"

text \<open>
  Reading a property \<open>v.k\<close>, for the names the handlers read (\<open>sessionId\<close>, \<open>sender\<close>,
  \<open>text\<close>, \<open>fileUrl\<close>, \<open>fileType\<close>, \<open>endpoint\<close>, \<open>keys\<close>). On \<open>undefined\<close> and \<open>null\<close>
  the read throws; an object gives its own member or \<open>undefined\<close>; a string, a number,
  a boolean and an array have none of them as a data property. (An array inherits the
  method \<open>keys\<close>; the only read of \<open>keys\<close> in the source comes after \<open>endpoint\<close> was
  read from the same value and found truthy, which no array allows, so that the method
  is never seen.)
\<close>

fun get :: "jsval \<Rightarrow> jsstring \<Rightarrow> js_error + jsval" where
  "get JUndefined k = Inl TypeError"
| "get JNull k = Inl TypeError"
| "get (JObj kvs) k = Inr (case map_of kvs k of None \<Rightarrow> JUndefined | Some v \<Rightarrow> v)"
| "get v k = Inr JUndefined"

text \<open>
  Decimal digits of a number, as \<open>Number.prototype.toString\<close> prints an integer of
  magnitude below \<open>10^21\<close>.
\<close>

function digits :: "nat \<Rightarrow> jsstring" where
  "digits n = (if n < 10 then [of_nat (48 + n)] else digits (n div 10) @ [of_nat (48 + n mod 10)])"
  by pat_completeness auto
termination
  by (relation "measure (\<lambda>n. n)") auto

definition number_toString :: "int \<Rightarrow> jsstring" where
  "number_toString n = (if n < 0 then lit ''-'' @ digits (nat (- n)) else digits (nat n))"

fun join_comma :: "(js_error + jsstring) list \<Rightarrow> js_error + jsstring" where
  "join_comma [] = Inr []"
| "join_comma [x] = x"
| "join_comma (x # y # ys) =
     (case x of
        Inl e \<Rightarrow> Inl e
      | Inr s \<Rightarrow> (case join_comma (y # ys) of Inl e \<Rightarrow> Inl e | Inr r \<Rightarrow> Inr (s @ lit '','' @ r)))"

text \<open>
  ToString, as a template literal \<open>`${v}`\<close> applies it. An array prints its elements
  joined by commas, \<open>undefined\<close> and \<open>null\<close> elements as nothing. A plain object prints
  through \<open>Object.prototype.toString\<close>; one that carries its own (JSON, so not callable)
  \<open>toString\<close> member cannot be converted and the conversion throws.
\<close>

fun ToString :: "jsval \<Rightarrow> js_error + jsstring" where
  "ToString JUndefined = Inr (lit ''undefined'')"
| "ToString JNull = Inr (lit ''null'')"
| "ToString (JBool b) = Inr (if b then lit ''true'' else lit ''false'')"
| "ToString (JNum n) = Inr (number_toString n)"
| "ToString (JStr s) = Inr s"
| "ToString (JArr xs) =
     join_comma (map (\<lambda>x. if x = JUndefined \<or> x = JNull then Inr [] else ToString x) xs)"
| "ToString (JObj kvs) =
     (if lit ''toString'' \<in> fst ` set kvs then Inl TypeError else Inr (lit ''[object Object]''))"


text \<open>
  \<open>v?.slice(0, 100)\<close>: \<open>undefined\<close> on \<open>undefined\<close> and \<open>null\<close>; the first 100 code units
  of a string, the first 100 elements of an array; any other value has no callable
  \<open>slice\<close> and the call throws.
\<close>

fun optional_slice :: "jsval \<Rightarrow> js_error + jsval" where
  "optional_slice JUndefined = Inr JUndefined"
| "optional_slice JNull = Inr JUndefined"
| "optional_slice (JStr s) = Inr (JStr (take 100 s))"
| "optional_slice (JArr xs) = Inr (JArr (take 100 xs))"
| "optional_slice v = Inl TypeError"

text \<open>
  \<open>v?.startsWith(p)\<close>: \<open>undefined\<close> on \<open>undefined\<close> and \<open>null\<close>; on a string whether \<open>p\<close>
  is a prefix; no other value has \<open>startsWith\<close>.
\<close>

fun optional_startsWith :: "jsval \<Rightarrow> jsstring \<Rightarrow> js_error + jsval" where
  "optional_startsWith JUndefined p = Inr JUndefined"
| "optional_startsWith JNull p = Inr JUndefined"
| "optional_startsWith (JStr s) p = Inr (JBool (take (length p) s = p))"
| "optional_startsWith v p = Inl TypeError"

text \<open>
  \<open>JSON.stringify\<close> of an object literal. The JSON text is represented by the list of
  its members in order; a member whose value is \<open>undefined\<close> is left out of the text.
\<close>

type_synonym payload = "(jsstring \<times> jsval) list"

definition JSON_stringify :: "(jsstring \<times> jsval) list \<Rightarrow> payload" where
  "JSON_stringify members = filter (\<lambda>(k, v). v \<noteq> JUndefined) members"

section \<open>Data model\<close>

text \<open>The destructured parameter of the \<open>chatMessage\<close> handler.\<close>

record chat_event =
  sessionId :: jsval
  sender :: jsval
  text' :: jsval
  fileUrl :: jsval
  fileType :: jsval

text \<open>A stored Message document: what was handed to \<open>new Message\<close>, and \<open>createdAt\<close>.\<close>

record message =
  document :: jsval
  createdAt :: nat

text \<open>A stored Subscription document (\<open>subscriptionSchema\<close>).\<close>

record subscription =
  endpoint :: jsval
  keys :: jsval
  sub_sessionId :: jsval

text \<open>
  The state of the server process: the two collections of the store the handlers touch,
  and the rooms of the socket server. A room is a set of connection ids, kept as a list
  without duplicates.
\<close>

record server =
  messages :: "message list"
  subscriptions :: "subscription list"
  rooms :: "jsval \<Rightarrow> nat dlist"

text \<open>What \<open>webpush.sendNotification\<close> settles to: \<open>Rejected c\<close> carries \<open>err.statusCode\<close>.\<close>

datatype push_outcome = Delivered | Rejected jsval

text \<open>
  What lies outside the process and decides how each asynchronous call settles: the
  clock, whether the store rejects a call, and what the push transport answers for a
  subscription and a payload.
\<close>

record env =
  now :: nat
  save_rejects :: "jsval \<Rightarrow> bool"
  find_rejects :: "jsval \<Rightarrow> bool"
  deleteOne_rejects :: "jsval \<Rightarrow> bool"
  findOneAndUpdate_rejects :: "subscription \<Rightarrow> bool"
  sendNotification_result :: "subscription \<Rightarrow> payload \<Rightarrow> push_outcome"

text \<open>
  The observable steps of a handler, in the order in which they happen. \<open>Console_error\<close>
  carries the label the source passes first (\<open>[]\<close> for \<open>.catch(console.error)\<close>, which
  has none); \<open>Emit room name data receivers\<close> is \<open>io.to(room).emit(name, data)\<close>
  with the connections it is delivered to.
\<close>

datatype effect =
    Console_log jsstring
  | Console_error jsstring
  | Store_save jsval
  | Emit jsval jsstring jsval "nat list"
  | Store_find jsval
  | Push_send subscription payload
  | Store_deleteOne jsval
  | Uncaught js_error

section \<open>The collaborators: store and membership registry\<close>

text \<open>
  Modelled from the spec: the Session Membership Registry of section 4.1, which the
  source takes from the socket library (\<open>socket.join\<close>, \<open>io.to(room).emit\<close>); the
  library's code is not under src/. \<open>join\<close> associates the connection with the session's
  delivery group and is idempotent if joined already.
\<close>

definition socket_join :: "nat \<Rightarrow> jsval \<Rightarrow> (jsval \<Rightarrow> nat dlist) \<Rightarrow> (jsval \<Rightarrow> nat dlist)" where
  "socket_join socket room rs = rs(room := Dlist.insert socket (rs room))"

text \<open>
  Modelled from the spec: \<open>broadcast(sessionId, payload)\<close> of section 4.1 delivers to
  every connection currently joined to the session, excluding none (the sender
  included). The result lists the connections the payload is delivered to, one entry
  for each delivery.
\<close>

definition io_to :: "(jsval \<Rightarrow> nat dlist) \<Rightarrow> jsval \<Rightarrow> nat list" where
  "io_to rs room = list_of_dlist (rs room)"

text \<open>
  Modelled from the spec: \<open>insert(Message)\<close> of the Persistence Store (section 6); the
  store's code is not under src/. The record is appended with a server-assigned
  \<open>createdAt\<close>.
\<close>

definition Message_save :: "nat \<Rightarrow> jsval \<Rightarrow> message list \<Rightarrow> message list" where
  "Message_save t doc ms = ms @ [\<lparr>document = doc, createdAt = t\<rparr>]"

text \<open>
  Modelled from the spec: \<open>query(sessionId) -> Subscription[]\<close> of the Persistence Store.
\<close>

definition Subscription_find :: "jsval \<Rightarrow> subscription list \<Rightarrow> subscription list" where
  "Subscription_find sid subs = filter (\<lambda>d. sub_sessionId d = sid) subs"

text \<open>
  Modelled from the spec: \<open>delete(Subscription by endpoint)\<close> of the Persistence Store;
  \<open>deleteOne\<close> removes the first document that matches.
\<close>

fun Subscription_deleteOne :: "jsval \<Rightarrow> subscription list \<Rightarrow> subscription list" where
  "Subscription_deleteOne e [] = []"
| "Subscription_deleteOne e (d # ds) =
     (if endpoint d = e then ds else d # Subscription_deleteOne e ds)"

text \<open>
  Modelled from the spec: the upsert keyed by endpoint of section 3 (the source calls
  \<open>findOneAndUpdate\<close> with the filter \<open>{endpoint}\<close>, the three fields as the update and
  \<open>upsert: true\<close>): the first document with that endpoint takes the new fields; when
  there is none, one document is inserted.
\<close>

fun Subscription_findOneAndUpdate :: "jsval \<Rightarrow> subscription \<Rightarrow> subscription list \<Rightarrow> subscription list" where
  "Subscription_findOneAndUpdate e u [] = [u]"
| "Subscription_findOneAndUpdate e u (d # ds) =
     (if endpoint d = e
      then d\<lparr>endpoint := endpoint u, keys := keys u, sub_sessionId := sub_sessionId u\<rparr> # ds
      else d # Subscription_findOneAndUpdate e u ds)"

section \<open>The handlers\<close>

subsection \<open>\<open>POST /api/save-subscription\<close>\<close>

datatype response = Status_json nat string | SendStatus nat

text \<open>
  The handler answers with a response; a throw before the \<open>try\<close> leaves the request
  without one (\<open>Inl\<close>). The second component is the server afterwards.
\<close>

definition save_subscription :: "env \<Rightarrow> jsval \<Rightarrow> server \<Rightarrow> (js_error + response) \<times> server" where
  "save_subscription en sub st =
     (case get sub (lit ''endpoint'') of
        Inl e \<Rightarrow> (Inl e, st)
      | Inr sub_endpoint \<Rightarrow>
          if \<not> truthy sub_endpoint then (Inr (Status_json 400 ''Invalid subscription payload.''), st)
          else
            (case get sub (lit ''keys'') of
               Inl e \<Rightarrow> (Inl e, st)
             | Inr sub_keys \<Rightarrow>
                 if \<not> truthy sub_keys then (Inr (Status_json 400 ''Invalid subscription payload.''), st)
                 else
                   (case get sub (lit ''sessionId'') of
                      Inl e \<Rightarrow> (Inr (Status_json 500 ''Failed to save subscription''), st)
                    | Inr sub_session \<Rightarrow>
                        let update = \<lparr>endpoint = sub_endpoint, keys = sub_keys, sub_sessionId = sub_session\<rparr>
                        in if findOneAndUpdate_rejects en update
                           then (Inr (Status_json 500 ''Failed to save subscription''), st)
                           else (Inr (SendStatus 201),
                                 st\<lparr>subscriptions :=
                                      Subscription_findOneAndUpdate sub_endpoint update (subscriptions st)\<rparr>))))"

subsection \<open>\<open>joinSession\<close>\<close>

definition joinSession :: "nat \<Rightarrow> jsval \<Rightarrow> server \<Rightarrow> server \<times> effect list" where
  "joinSession socket sid st =
     (st\<lparr>rooms := socket_join socket sid (rooms st)\<rparr>,
      [case ToString sid of
         Inl e \<Rightarrow> Uncaught e
       | Inr s \<Rightarrow> Console_log (lit ''Client joined session: '' @ s)])"

subsection \<open>\<open>chatMessage\<close>\<close>

text \<open>
  The parameter pattern \<open>{ sessionId, sender, text, fileUrl, fileType }\<close>: it throws on
  \<open>undefined\<close> and \<open>null\<close>, and otherwise reads the five properties.
\<close>

definition destructure :: "jsval \<Rightarrow> js_error + chat_event" where
  "destructure arg =
     (case get arg (lit ''sessionId'') of Inl e \<Rightarrow> Inl e | Inr v1 \<Rightarrow>
      case get arg (lit ''sender'') of Inl e \<Rightarrow> Inl e | Inr v2 \<Rightarrow>
      case get arg (lit ''text'') of Inl e \<Rightarrow> Inl e | Inr v3 \<Rightarrow>
      case get arg (lit ''fileUrl'') of Inl e \<Rightarrow> Inl e | Inr v4 \<Rightarrow>
      case get arg (lit ''fileType'') of Inl e \<Rightarrow> Inl e | Inr v5 \<Rightarrow>
        Inr \<lparr>sessionId = v1, sender = v2, text' = v3, fileUrl = v4, fileType = v5\<rparr>)"

text \<open>\<open>const messageData = { sessionId, sender, text, fileUrl, fileType }\<close>\<close>

definition messageData :: "chat_event \<Rightarrow> jsval" where
  "messageData ev =
     JObj [(lit ''sessionId'', sessionId ev), (lit ''sender'', sender ev), (lit ''text'', text' ev),
           (lit ''fileUrl'', fileUrl ev), (lit ''fileType'', fileType ev)]"

text \<open>
  The \<open>try\<close> around \<open>new Message(messageData).save()\<close>: a rejection is caught and
  logged, and nothing else.
\<close>

definition persist :: "env \<Rightarrow> chat_event \<Rightarrow> server \<Rightarrow> server \<times> effect list" where
  "persist en ev st =
     (if save_rejects en (messageData ev)
      then (st, [Store_save (messageData ev), Console_error (lit ''Error saving message:'')])
      else (st\<lparr>messages := Message_save (now en) (messageData ev) (messages st)\<rparr>,
            [Store_save (messageData ev)]))"

text \<open>\<open>io.to(sessionId).emit('chatMessage', messageData)\<close>\<close>

definition broadcast :: "chat_event \<Rightarrow> server \<Rightarrow> effect" where
  "broadcast ev st =
     Emit (sessionId ev) (lit ''chatMessage'') (messageData ev) (io_to (rooms st) (sessionId ev))"

text \<open>
  The notification payload, \<open>JSON.stringify({title, body, icon, url})\<close>. Either template
  literal and either optional call may throw.
\<close>

definition notification_payload :: "jsstring \<Rightarrow> chat_event \<Rightarrow> js_error + payload" where
  "notification_payload BASE_URL ev =
     (case ToString (sender ev) of Inl e \<Rightarrow> Inl e | Inr sender_string \<Rightarrow>
      case optional_slice (text' ev) of Inl e \<Rightarrow> Inl e | Inr sliced \<Rightarrow>
      case optional_startsWith (fileType ev) (lit ''image/'') of Inl e \<Rightarrow> Inl e | Inr is_image \<Rightarrow>
      case ToString (sessionId ev) of Inl e \<Rightarrow> Inl e | Inr session_string \<Rightarrow>
        Inr (JSON_stringify
              [(lit ''title'', JStr (lit ''New message from '' @ sender_string)),
               (lit ''body'', js_or sliced (JStr (lit ''Sent an attachment''))),
               (lit ''icon'', if truthy is_image then fileUrl ev else JUndefined),
               (lit ''url'', JStr (BASE_URL @ lit ''/chat/'' @ session_string))]))"

text \<open>
  The \<open>.catch\<close> of one \<open>sendNotification\<close>: status 410 or 404 asks the store to delete
  the subscription by its endpoint (a rejection of that call goes to \<open>console.error\<close>);
  any other error is logged.
\<close>

definition on_rejected :: "env \<Rightarrow> subscription \<Rightarrow> jsval \<Rightarrow> server \<Rightarrow> server \<times> effect list" where
  "on_rejected en sub statusCode st =
     (if statusCode = JNum 410 \<or> statusCode = JNum 404
      then (if deleteOne_rejects en (endpoint sub)
            then (st, [Store_deleteOne (endpoint sub), Console_error []])
            else (st\<lparr>subscriptions := Subscription_deleteOne (endpoint sub) (subscriptions st)\<rparr>,
                  [Store_deleteOne (endpoint sub)]))
      else (st, [Console_error (lit ''Push error:'')]))"

text \<open>One attempt and its \<open>.catch\<close>: \<open>webpush.sendNotification(sub, payload).catch(...)\<close>.\<close>

definition settle_one :: "env \<Rightarrow> payload \<Rightarrow> subscription \<Rightarrow> server \<Rightarrow> server \<times> effect list" where
  "settle_one en p sub st =
     (case sendNotification_result en sub p of
        Delivered \<Rightarrow> (st, [])
      | Rejected statusCode \<Rightarrow> on_rejected en sub statusCode st)"

text \<open>
  The attempts settle after the handler has gone on; the model lets them settle in the
  order of the subscriptions.
\<close>

fun settle :: "env \<Rightarrow> payload \<Rightarrow> subscription list \<Rightarrow> server \<Rightarrow> server \<times> effect list" where
  "settle en p [] st = (st, [])"
| "settle en p (sub # subs) st =
     (let (st1, t1) = settle_one en p sub st;
          (st2, t2) = settle en p subs st1
      in (st2, t1 @ t2))"

text \<open>
  The second \<open>try\<close>: the query, the payload, then \<open>subs.forEach\<close> starting one attempt
  for each subscription with that payload. A throw of the query or of the payload
  construction is caught and logged.
\<close>

definition push_notifications :: "jsstring \<Rightarrow> env \<Rightarrow> chat_event \<Rightarrow> server \<Rightarrow> server \<times> effect list" where
  "push_notifications BASE_URL en ev st =
     (if find_rejects en (sessionId ev)
      then (st, [Store_find (sessionId ev), Console_error (lit ''Error sending push notifications:'')])
      else
        let subs = Subscription_find (sessionId ev) (subscriptions st) in
        (case notification_payload BASE_URL ev of
           Inl e \<Rightarrow> (st, [Store_find (sessionId ev), Console_error (lit ''Error sending push notifications:'')])
         | Inr p \<Rightarrow>
             let (st', t) = settle en p subs st
             in (st', Store_find (sessionId ev) # map (\<lambda>sub. Push_send sub p) subs @ t)))"

text \<open>
  The handler of one \<open>chatMessage\<close> event on connection \<open>socket\<close>, run to completion:
  persist, broadcast, push.
\<close>

definition chatMessage :: "jsstring \<Rightarrow> env \<Rightarrow> nat \<Rightarrow> jsval \<Rightarrow> server \<Rightarrow> server \<times> effect list" where
  "chatMessage BASE_URL en socket arg st =
     (case destructure arg of
        Inl e \<Rightarrow> (st, [Uncaught e])
      | Inr ev \<Rightarrow>
          let (st1, t1) = persist en ev st;
              (st2, t2) = push_notifications BASE_URL en ev st1
          in (st2, t1 @ [broadcast ev st1] @ t2))"

section \<open>What a run shows\<close>

text \<open>The deliveries of a run: one entry (connection, event name, data) for each receiver of each emit.\<close>

fun deliveries :: "effect list \<Rightarrow> (nat \<times> jsstring \<times> jsval) list" where
  "deliveries [] = []"
| "deliveries (Emit room name data cs # tr) = map (\<lambda>c. (c, name, data)) cs @ deliveries tr"
| "deliveries (x # tr) = deliveries tr"

text \<open>The delivery attempts of a run: the subscription and the payload of each \<open>sendNotification\<close>.\<close>

fun attempts :: "effect list \<Rightarrow> (subscription \<times> payload) list" where
  "attempts [] = []"
| "attempts (Push_send sub p # tr) = (sub, p) # attempts tr"
| "attempts (x # tr) = attempts tr"

text \<open>The steps of the push path: the subscription query, the attempts, and what their failures cause.\<close>

fun push_step :: "effect \<Rightarrow> bool" where
  "push_step (Store_find sid) = True"
| "push_step (Push_send sub p) = True"
| "push_step (Store_deleteOne e) = True"
| "push_step (Console_error l) =
     (l = lit ''Error sending push notifications:'' \<or> l = lit ''Push error:'' \<or> l = [])"
| "push_step x = False"


section \<open>Sample data\<close>

text \<open>
  The scenario of the specification: session \<open>abc\<close>, sender \<open>u1\<close>, the text \<open>hello\<close>;
  connections 1 and 2 joined to \<open>abc\<close>, connection 3 to \<open>xyz\<close>; subscriptions \<open>E1\<close> and
  \<open>E2\<close> recorded for \<open>abc\<close> and \<open>E3\<close> for \<open>xyz\<close>.
\<close>

definition base_url :: jsstring where
  "base_url = lit ''http://localhost:5002''"

definition abc :: jsval where
  "abc = JStr (lit ''abc'')"

definition hello :: jsval where
  "hello = JObj [(lit ''sessionId'', abc), (lit ''sender'', JStr (lit ''u1'')),
                 (lit ''text'', JStr (lit ''hello'')), (lit ''fileUrl'', JStr []),
                 (lit ''fileType'', JStr [])]"

definition hello_event :: chat_event where
  "hello_event = \<lparr>sessionId = abc, sender = JStr (lit ''u1''), text' = JStr (lit ''hello''),
                   fileUrl = JStr [], fileType = JStr []\<rparr>"

definition hello_payload :: payload where
  "hello_payload = [(lit ''title'', JStr (lit ''New message from u1'')),
                    (lit ''body'', JStr (lit ''hello'')),
                    (lit ''url'', JStr (lit ''http://localhost:5002/chat/abc''))]"

definition E1 :: subscription where
  "E1 = \<lparr>endpoint = JStr (lit ''E1''), keys = JObj [], sub_sessionId = abc\<rparr>"

definition E2 :: subscription where
  "E2 = \<lparr>endpoint = JStr (lit ''E2''), keys = JObj [], sub_sessionId = abc\<rparr>"

definition E3 :: subscription where
  "E3 = \<lparr>endpoint = JStr (lit ''E3''), keys = JObj [], sub_sessionId = JStr (lit ''xyz'')\<rparr>"

definition sample_server :: server where
  "sample_server =
     \<lparr>messages = [], subscriptions = [E1, E2, E3],
      rooms = (\<lambda>room. Dlist.empty)
                (abc := Dlist.insert 1 (Dlist.insert 2 Dlist.empty),
                 JStr (lit ''xyz'') := Dlist.insert 3 Dlist.empty)\<rparr>"

text \<open>An environment in which nothing fails.\<close>

definition reliable :: env where
  "reliable = \<lparr>now = 0, save_rejects = (\<lambda>doc. False), find_rejects = (\<lambda>sid. False),
               deleteOne_rejects = (\<lambda>e. False), findOneAndUpdate_rejects = (\<lambda>u. False),
               sendNotification_result = (\<lambda>sub p. Delivered)\<rparr>"

text \<open>
  More sample data: a photo message with a text of 101 code units; the same kind of
  message sent without \<open>fileUrl\<close>; a transport that answers 410 for \<open>E1\<close> and 500 for
  \<open>E2\<close>; and three registration bodies.
\<close>

definition photo :: jsval where
  "photo = JObj [(lit ''sessionId'', abc), (lit ''sender'', JStr (lit ''u1'')),
                 (lit ''text'', JStr (replicate 101 (of_char CHR ''a''))),
                 (lit ''fileUrl'', JStr (lit ''http://files/1.png'')),
                 (lit ''fileType'', JStr (lit ''image/png''))]"

definition photo_event :: chat_event where
  "photo_event = \<lparr>sessionId = abc, sender = JStr (lit ''u1''),
                   text' = JStr (replicate 101 (of_char CHR ''a'')),
                   fileUrl = JStr (lit ''http://files/1.png''), fileType = JStr (lit ''image/png'')\<rparr>"

definition photo_payload :: payload where
  "photo_payload = [(lit ''title'', JStr (lit ''New message from u1'')),
                    (lit ''body'', JStr (replicate 100 (of_char CHR ''a''))),
                    (lit ''icon'', JStr (lit ''http://files/1.png'')),
                    (lit ''url'', JStr (lit ''http://localhost:5002/chat/abc''))]"

definition photo_without_url :: jsval where
  "photo_without_url = JObj [(lit ''sessionId'', abc), (lit ''sender'', JStr (lit ''u1'')),
                             (lit ''text'', JStr []), (lit ''fileType'', JStr (lit ''image/png''))]"

definition photo_without_url_payload :: payload where
  "photo_without_url_payload = [(lit ''title'', JStr (lit ''New message from u1'')),
                    (lit ''body'', JStr (lit ''Sent an attachment'')),
                    (lit ''url'', JStr (lit ''http://localhost:5002/chat/abc''))]"


definition new_keys :: jsval where
  "new_keys = JObj [(lit ''p256dh'', JStr (lit ''P'')), (lit ''auth'', JStr (lit ''A''))]"

definition no_endpoint :: jsval where
  "no_endpoint = JObj [(lit ''keys'', new_keys), (lit ''sessionId'', abc)]"

definition keys_incomplete :: jsval where
  "keys_incomplete = JObj [(lit ''endpoint'', JStr (lit ''E9'')), (lit ''keys'', JObj [])]"

definition rebind_E1 :: jsval where
  "rebind_E1 = JObj [(lit ''endpoint'', JStr (lit ''E1'')), (lit ''keys'', new_keys),
                     (lit ''sessionId'', JStr (lit ''xyz''))]"

text \<open>The message of the scenario with the number 5 as its text.\<close>

definition numeric_text :: jsval where
  "numeric_text = JObj [(lit ''sessionId'', abc), (lit ''sender'', JStr (lit ''u1'')),
                        (lit ''text'', JNum 5), (lit ''fileUrl'', JStr []), (lit ''fileType'', JStr [])]"

definition numeric_text_event :: chat_event where
  "numeric_text_event = \<lparr>sessionId = abc, sender = JStr (lit ''u1''), text' = JNum 5,
                          fileUrl = JStr [], fileType = JStr []\<rparr>"

section \<open>Properties of the parts\<close>

lemma settle_Cons_fst:
  "fst (settle en p (sub # subs) st) = fst (settle en p subs (fst (settle_one en p sub st)))"
  by (simp add: case_prod_beta)

lemma settle_Cons_snd:
  "snd (settle en p (sub # subs) st) =
     snd (settle_one en p sub st) @ snd (settle en p subs (fst (settle_one en p sub st)))"
  by (simp add: case_prod_beta)

lemma settle_one_rooms: "rooms (fst (settle_one en p sub st)) = rooms st"
  by (simp add: settle_one_def on_rejected_def split: push_outcome.splits)

lemma settle_one_messages: "messages (fst (settle_one en p sub st)) = messages st"
  by (simp add: settle_one_def on_rejected_def split: push_outcome.splits)

lemma settle_rooms: "rooms (fst (settle en p subs st)) = rooms st"
  by (induction subs arbitrary: st) (simp_all add: settle_Cons_fst settle_one_rooms del: settle.simps(2))

lemma settle_messages: "messages (fst (settle en p subs st)) = messages st"
  by (induction subs arbitrary: st) (simp_all add: settle_Cons_fst settle_one_messages del: settle.simps(2))

lemma settle_one_push_step: "x \<in> set (snd (settle_one en p sub st)) \<Longrightarrow> push_step x"
  by (auto simp: settle_one_def on_rejected_def split: push_outcome.splits if_splits)

lemma settle_push_step: "x \<in> set (snd (settle en p subs st)) \<Longrightarrow> push_step x"
  by (induction subs arbitrary: st) (auto simp: settle_Cons_snd settle_one_push_step simp del: settle.simps(2))

lemma deliveries_append: "deliveries (xs @ ys) = deliveries xs @ deliveries ys"
  by (induction xs rule: deliveries.induct) auto

lemma attempts_append: "attempts (xs @ ys) = attempts xs @ attempts ys"
  by (induction xs rule: attempts.induct) auto

lemma settle_one_deliveries: "deliveries (snd (settle_one en p sub st)) = []"
  by (simp add: settle_one_def on_rejected_def split: push_outcome.splits)

lemma settle_one_attempts: "attempts (snd (settle_one en p sub st)) = []"
  by (simp add: settle_one_def on_rejected_def split: push_outcome.splits)

lemma settle_deliveries: "deliveries (snd (settle en p subs st)) = []"
  by (induction subs arbitrary: st) (simp_all add: settle_Cons_snd deliveries_append settle_one_deliveries del: settle.simps(2))

lemma settle_attempts: "attempts (snd (settle en p subs st)) = []"
  by (induction subs arbitrary: st) (simp_all add: settle_Cons_snd attempts_append settle_one_attempts del: settle.simps(2))

lemma attempts_sends: "attempts (map (\<lambda>sub. Push_send sub p) subs) = map (\<lambda>sub. (sub, p)) subs"
  by (induction subs) auto

lemma deliveries_sends: "deliveries (map (\<lambda>sub. Push_send sub p) subs) = []"
  by (induction subs) auto




lemma persist_rooms: "rooms (fst (persist en ev st)) = rooms st"
  by (simp add: persist_def)

lemma persist_subscriptions: "subscriptions (fst (persist en ev st)) = subscriptions st"
  by (simp add: persist_def)

lemma persist_not_push_step: "x \<in> set (snd (persist en ev st)) \<Longrightarrow> \<not> push_step x"
  by (auto simp: persist_def lit_def split: if_splits)

lemma persist_deliveries: "deliveries (snd (persist en ev st)) = []"
  by (simp add: persist_def)

lemma persist_attempts: "attempts (snd (persist en ev st)) = []"
  by (simp add: persist_def)

lemma broadcast_persist: "broadcast ev (fst (persist en ev st)) = broadcast ev st"
  by (simp add: broadcast_def persist_rooms)

lemma chatMessage_snd:
  "destructure arg = Inr ev \<Longrightarrow>
   snd (chatMessage B en socket arg st) =
     snd (persist en ev st) @ broadcast ev st # snd (push_notifications B en ev (fst (persist en ev st)))"
  by (simp add: chatMessage_def case_prod_beta broadcast_persist)

lemma chatMessage_fst:
  "destructure arg = Inr ev \<Longrightarrow>
   fst (chatMessage B en socket arg st) = fst (push_notifications B en ev (fst (persist en ev st)))"
  by (simp add: chatMessage_def case_prod_beta)

lemma chatMessage_no_event:
  "destructure arg = Inl e \<Longrightarrow> chatMessage B en socket arg st = (st, [Uncaught e])"
  by (simp add: chatMessage_def)

lemma push_notifications_reached_snd:
  "\<not> find_rejects en (sessionId ev) \<Longrightarrow> notification_payload B ev = Inr p \<Longrightarrow>
   snd (push_notifications B en ev st) =
     Store_find (sessionId ev) #
     map (\<lambda>sub. Push_send sub p) (Subscription_find (sessionId ev) (subscriptions st)) @
     snd (settle en p (Subscription_find (sessionId ev) (subscriptions st)) st)"
  by (simp add: push_notifications_def Let_def case_prod_beta)


lemma push_notifications_not_reached:
  "find_rejects en (sessionId ev) \<or> notification_payload B ev = Inl e \<Longrightarrow>
   push_notifications B en ev st =
     (st, [Store_find (sessionId ev), Console_error (lit ''Error sending push notifications:'')])"
  by (auto simp: push_notifications_def Let_def)

lemma push_notifications_push_step:
  "x \<in> set (snd (push_notifications B en ev st)) \<Longrightarrow> push_step x"
  by (auto simp: push_notifications_def Let_def case_prod_beta dest: settle_push_step split: if_splits sum.splits)

lemma push_notifications_deliveries: "deliveries (snd (push_notifications B en ev st)) = []"
  by (simp add: push_notifications_def Let_def case_prod_beta deliveries_append deliveries_sends settle_deliveries
           split: sum.splits)

lemma push_notifications_messages: "messages (fst (push_notifications B en ev st)) = messages st"
  by (simp add: push_notifications_def Let_def case_prod_beta settle_messages split: sum.splits)

lemma push_notifications_rooms: "rooms (fst (push_notifications B en ev st)) = rooms st"
  by (simp add: push_notifications_def Let_def case_prod_beta settle_rooms split: sum.splits)

lemma chatMessage_deliveries:
  "destructure arg = Inr ev \<Longrightarrow>
   deliveries (snd (chatMessage B en socket arg st)) =
     map (\<lambda>c. (c, lit ''chatMessage'', messageData ev)) (io_to (rooms st) (sessionId ev))"
  by (simp add: chatMessage_snd deliveries_append persist_deliveries push_notifications_deliveries broadcast_def)

lemma persist_push_oracles:
  "persist (en\<lparr>find_rejects := fr, deleteOne_rejects := dr, sendNotification_result := sr\<rparr>) ev st =
   persist en ev st"
  by (simp add: persist_def)

lemma dlist_member_set: "Dlist.member d c \<longleftrightarrow> c \<in> set (list_of_dlist d)"
  by (simp add: Dlist.member_def)

lemma count_list_distinct: "distinct xs \<Longrightarrow> x \<in> set xs \<Longrightarrow> count_list xs x = 1"
  by (induction xs) auto

lemma socket_join_twice: "socket_join c S (socket_join c S rs) = socket_join c S rs"
  by (rule ext) (simp add: socket_join_def dlist_eq_iff)

lemma chatMessage_attempts:
  assumes "destructure arg = Inr ev" and "\<not> find_rejects en (sessionId ev)"
    and "notification_payload B ev = Inr p"
  shows "attempts (snd (chatMessage B en socket arg st)) =
           map (\<lambda>sub. (sub, p)) (Subscription_find (sessionId ev) (subscriptions st))"
  by (simp add: chatMessage_snd [OF assms(1)] push_notifications_reached_snd [OF assms(2,3)]
        attempts_append persist_attempts broadcast_def attempts_sends settle_attempts
        persist_subscriptions)

lemma subscription_replaced:
  "(d::subscription)\<lparr>endpoint := endpoint u, keys := keys u, sub_sessionId := sub_sessionId u\<rparr> = u"
  by (cases d, cases u) simp

lemma findOneAndUpdate_fresh:
  "e \<notin> endpoint ` set ds \<Longrightarrow> Subscription_findOneAndUpdate e u ds = ds @ [u]"
  by (induction ds) auto

lemma findOneAndUpdate_endpoints:
  "endpoint u = e \<Longrightarrow>
   map endpoint (Subscription_findOneAndUpdate e u ds) =
     (if e \<in> endpoint ` set ds then map endpoint ds else map endpoint ds @ [e])"
  by (induction ds) (auto simp: subscription_replaced)

lemma findOneAndUpdate_others:
  "endpoint u = e \<Longrightarrow>
   filter (\<lambda>d. endpoint d \<noteq> e) (Subscription_findOneAndUpdate e u ds) = filter (\<lambda>d. endpoint d \<noteq> e) ds"
  by (induction ds) (auto simp: subscription_replaced)

lemma findOneAndUpdate_this:
  "endpoint u = e \<Longrightarrow> distinct (map endpoint ds) \<Longrightarrow>
   filter (\<lambda>d. endpoint d = e) (Subscription_findOneAndUpdate e u ds) = [u]"
proof (induction ds)
  case Nil
  then show ?case by simp
next
  case (Cons d ds)
  show ?case
  proof (cases "endpoint d = e")
    case True
    with Cons.prems have "\<forall>x\<in>set ds. endpoint x \<noteq> e" by (fastforce simp: image_iff)
    then have "filter (\<lambda>d. endpoint d = e) ds = []" by (simp add: filter_empty_conv)
    with True Cons.prems(1) show ?thesis by (simp add: subscription_replaced)
  next
    case False
    with Cons show ?thesis by simp
  qed
qed

lemma push_notifications_attempts:
  "attempts (snd (push_notifications B en ev st)) =
     (if find_rejects en (sessionId ev) then []
      else case notification_payload B ev of
             Inl e \<Rightarrow> []
           | Inr p \<Rightarrow> map (\<lambda>sub. (sub, p)) (Subscription_find (sessionId ev) (subscriptions st)))"
  by (simp add: push_notifications_def Let_def case_prod_beta attempts_append attempts_sends
        settle_attempts split: sum.splits)

lemma chatMessage_attempted:
  assumes "(sub, p) \<in> set (attempts (snd (chatMessage B en socket arg st)))"
  shows "\<exists>ev. destructure arg = Inr ev \<and> \<not> find_rejects en (sessionId ev)
              \<and> notification_payload B ev = Inr p
              \<and> sub \<in> set (Subscription_find (sessionId ev) (subscriptions st))"
proof (cases "destructure arg")
  case (Inl e)
  with assms show ?thesis by (simp add: chatMessage_no_event)
next
  case (Inr ev)
  from assms have "(sub, p) \<in> set (attempts (snd (push_notifications B en ev (fst (persist en ev st)))))"
    by (simp add: chatMessage_snd [OF Inr] attempts_append persist_attempts broadcast_def)
  then have "\<not> find_rejects en (sessionId ev) \<and> notification_payload B ev = Inr p
             \<and> sub \<in> set (Subscription_find (sessionId ev) (subscriptions st))"
    by (auto simp: push_notifications_attempts persist_subscriptions split: if_splits sum.splits)
  with Inr show ?thesis by blast
qed

lemma optional_startsWith_truthy:
  "optional_startsWith v q = Inr x \<Longrightarrow> truthy x \<longleftrightarrow> optional_startsWith v q = Inr (JBool True)"
  by (cases v) auto

lemma body_of_string:
  "js_or (JStr (take 100 s)) (JStr fallback) =
     JStr (if 100 < length s then take 100 s else if 1 \<le> length s then s else fallback)"
  by (cases s) (simp_all add: js_or_def)

lemma notification_payload_members:
  assumes "notification_payload B ev = Inr p"
  obtains sender_string sliced is_image session_string where
    "ToString (sender ev) = Inr sender_string"
    "optional_slice (text' ev) = Inr sliced"
    "optional_startsWith (fileType ev) (lit ''image/'') = Inr is_image"
    "ToString (sessionId ev) = Inr session_string"
    "p = JSON_stringify
           [(lit ''title'', JStr (lit ''New message from '' @ sender_string)),
            (lit ''body'', js_or sliced (JStr (lit ''Sent an attachment''))),
            (lit ''icon'', if truthy is_image then fileUrl ev else JUndefined),
            (lit ''url'', JStr (B @ lit ''/chat/'' @ session_string))]"
  using assms by (auto simp: notification_payload_def split: sum.splits)

lemma member_names:
  "lit ''title'' \<noteq> lit ''body''" "lit ''title'' \<noteq> lit ''icon''" "lit ''title'' \<noteq> lit ''url''"
  "lit ''body'' \<noteq> lit ''icon''" "lit ''body'' \<noteq> lit ''url''" "lit ''icon'' \<noteq> lit ''url''"
  by (simp_all add: lit_def)










lemma destructure_hello: "destructure hello = Inr hello_event"
  by (simp add: destructure_def hello_def hello_event_def lit_def)

lemma payload_hello: "notification_payload base_url hello_event = Inr hello_payload"
  by (simp add: notification_payload_def hello_event_def hello_payload_def base_url_def
        JSON_stringify_def js_or_def abc_def lit_def)

lemma destructure_photo: "destructure photo = Inr photo_event"
  by (simp add: destructure_def photo_def photo_event_def lit_def)

lemma payload_photo: "notification_payload base_url photo_event = Inr photo_payload"
  by (simp add: notification_payload_def photo_event_def photo_payload_def base_url_def
        JSON_stringify_def js_or_def abc_def lit_def)

lemma find_abc: "Subscription_find abc (subscriptions sample_server) = [E1, E2]"
  by (simp add: Subscription_find_def sample_server_def E1_def E2_def E3_def abc_def lit_def)

lemma members_abc: "list_of_dlist (rooms sample_server abc) = [1, 2]"
  by (simp add: sample_server_def abc_def lit_def)

section \<open>The claims\<close>

text \<open>
  C1. For every inbound \<open>chatMessage\<close> event, if persisting the Message fails, the
  failure is only logged and the handler still broadcasts the message payload to the
  session's connection group; the broadcast does not depend on the persistence step
  succeeding. Whenever the event carries an object (the parameter destructures) and the
  store rejects the save, the run starts with the save, the line
  \<open>Error saving message:\<close> and the emit to the members of the session; no message is
  stored; nothing is thrown; and the deliveries are those of the run in which the store
  accepts the save.
\<close>

theorem persistence_failure_logged_broadcast_proceeds:
  assumes "destructure arg = Inr ev" and "save_rejects en (messageData ev)"
  shows "take 3 (snd (chatMessage B en socket arg st)) =
           [Store_save (messageData ev), Console_error (lit ''Error saving message:''),
            Emit (sessionId ev) (lit ''chatMessage'') (messageData ev) (io_to (rooms st) (sessionId ev))]
         \<and> messages (fst (chatMessage B en socket arg st)) = messages st
         \<and> Uncaught TypeError \<notin> set (snd (chatMessage B en socket arg st))
         \<and> deliveries (snd (chatMessage B en socket arg st)) =
             deliveries (snd (chatMessage B (en\<lparr>save_rejects := \<lambda>doc. False\<rparr>) socket arg st))"
proof -
  have p: "persist en ev st = (st, [Store_save (messageData ev), Console_error (lit ''Error saving message:'')])"
    using assms(2) by (simp add: persist_def)
  have 1: "take 3 (snd (chatMessage B en socket arg st)) =
           [Store_save (messageData ev), Console_error (lit ''Error saving message:''),
            Emit (sessionId ev) (lit ''chatMessage'') (messageData ev) (io_to (rooms st) (sessionId ev))]"
    by (simp add: chatMessage_snd [OF assms(1)] p broadcast_def)
  have 2: "messages (fst (chatMessage B en socket arg st)) = messages st"
    by (simp add: chatMessage_fst [OF assms(1)] push_notifications_messages p)
  have 3: "Uncaught TypeError \<notin> set (snd (chatMessage B en socket arg st))"
    using push_notifications_push_step [of "Uncaught TypeError" B en ev st]
    by (auto simp: chatMessage_snd [OF assms(1)] p broadcast_def)
  have 4: "deliveries (snd (chatMessage B en socket arg st)) =
             deliveries (snd (chatMessage B (en\<lparr>save_rejects := \<lambda>doc. False\<rparr>) socket arg st))"
    by (simp add: chatMessage_deliveries [OF assms(1)])
  from 1 2 3 4 show ?thesis by blast
qed

theorem persistence_failure_witness:
  "destructure hello = Inr hello_event
   \<and> save_rejects (reliable\<lparr>save_rejects := \<lambda>doc. True\<rparr>) (messageData hello_event)
   \<and> take 3 (snd (chatMessage base_url (reliable\<lparr>save_rejects := \<lambda>doc. True\<rparr>) 1 hello sample_server)) =
       [Store_save (messageData hello_event), Console_error (lit ''Error saving message:''),
        Emit abc (lit ''chatMessage'') (messageData hello_event) [1, 2]]
   \<and> messages (fst (chatMessage base_url (reliable\<lparr>save_rejects := \<lambda>doc. True\<rparr>) 1 hello sample_server)) = []"
proof -
  have h1: "destructure hello = Inr hello_event"
    by (simp add: destructure_def hello_def hello_event_def lit_def)
  have h2: "save_rejects (reliable\<lparr>save_rejects := \<lambda>doc. True\<rparr>) (messageData hello_event)"
    by simp
  have sid: "sessionId hello_event = abc"
    by (simp add: hello_event_def)
  have r: "io_to (rooms sample_server) abc = [1, 2]"
    by (simp add: io_to_def sample_server_def abc_def lit_def)
  have m: "messages sample_server = []"
    by (simp add: sample_server_def)
  show ?thesis
    using persistence_failure_logged_broadcast_proceeds [OF h1 h2, of base_url 1 sample_server] h1 h2
    by (simp add: r m sid)
qed

text \<open>
  C2. For every inbound \<open>chatMessage\<close> event, the broadcast is issued before the push
  fan-out begins, and nothing in the push path prevents, alters or delays it. Let the
  subscription query, the store's delete and the push transport behave in any way
  (\<open>fr\<close>, \<open>dr\<close>, \<open>sr\<close>): the run is the persistence steps, then the emit, then the steps
  of the push path. The first two parts are fixed by the event, the server and the
  outcome of the save alone, no step of the push path occurs in them, and every step
  after the emit belongs to the push path. Time is not part of the model: "delays" is
  read as the order of the steps.
\<close>

theorem broadcast_precedes_push_path:
  assumes "destructure arg = Inr ev"
  shows "snd (chatMessage B (en\<lparr>find_rejects := fr, deleteOne_rejects := dr, sendNotification_result := sr\<rparr>)
                socket arg st) =
           snd (persist en ev st) @ broadcast ev st #
           snd (push_notifications B
                  (en\<lparr>find_rejects := fr, deleteOne_rejects := dr, sendNotification_result := sr\<rparr>)
                  ev (fst (persist en ev st)))
         \<and> (\<forall>x \<in> set (snd (persist en ev st)). \<not> push_step x)
         \<and> \<not> push_step (broadcast ev st)
         \<and> (\<forall>x \<in> set (snd (push_notifications B
                  (en\<lparr>find_rejects := fr, deleteOne_rejects := dr, sendNotification_result := sr\<rparr>)
                  ev (fst (persist en ev st)))). push_step x)"
proof -
  let ?en = "en\<lparr>find_rejects := fr, deleteOne_rejects := dr, sendNotification_result := sr\<rparr>"
  have 1: "snd (chatMessage B ?en socket arg st) =
           snd (persist en ev st) @ broadcast ev st # snd (push_notifications B ?en ev (fst (persist en ev st)))"
    using chatMessage_snd [OF assms, of B ?en socket st] by (simp only: persist_push_oracles)
  have 2: "\<forall>x \<in> set (snd (persist en ev st)). \<not> push_step x"
    by (blast dest: persist_not_push_step)
  have 3: "\<not> push_step (broadcast ev st)"
    by (simp add: broadcast_def)
  have 4: "\<forall>x \<in> set (snd (push_notifications B ?en ev (fst (persist en ev st)))). push_step x"
    by (blast intro: push_notifications_push_step)
  from 1 2 3 4 show ?thesis by blast
qed

theorem broadcast_precedes_push_path_witness:
  "destructure hello = Inr hello_event
   \<and> snd (chatMessage base_url
            (reliable\<lparr>find_rejects := \<lambda>sid. True, deleteOne_rejects := \<lambda>e. True,
                       sendNotification_result := \<lambda>sub p. Rejected JUndefined\<rparr>)
            1 hello sample_server) =
       [Store_save (messageData hello_event),
        Emit abc (lit ''chatMessage'') (messageData hello_event) [1, 2],
        Store_find abc, Console_error (lit ''Error sending push notifications:'')]"
proof -
  let ?en = "reliable\<lparr>find_rejects := \<lambda>sid. True, deleteOne_rejects := \<lambda>e. True,
                       sendNotification_result := \<lambda>sub p. Rejected JUndefined\<rparr>"
  have p: "snd (persist reliable hello_event sample_server) = [Store_save (messageData hello_event)]"
    by (simp add: persist_def reliable_def)
  have b: "broadcast hello_event sample_server =
           Emit abc (lit ''chatMessage'') (messageData hello_event) [1, 2]"
    by (simp add: broadcast_def io_to_def members_abc hello_event_def)
  have n: "snd (push_notifications base_url ?en hello_event (fst (persist reliable hello_event sample_server))) =
           [Store_find abc, Console_error (lit ''Error sending push notifications:'')]"
    by (simp add: push_notifications_def hello_event_def)
  from broadcast_precedes_push_path [OF destructure_hello, where B = base_url and en = reliable
      and fr = "\<lambda>sid. True" and dr = "\<lambda>e. True" and sr = "\<lambda>sub p. Rejected JUndefined"
      and socket = 1 and st = sample_server]
  show ?thesis by (simp add: p b n destructure_hello)
qed



text \<open>
  C4, as amended. For every \<open>chatMessage\<close> event that reaches push dispatch, the payload
  of each attempt has: for a text \<open>s\<close>, the body \<open>take 100 s\<close> when \<open>s\<close> is longer than
  100, \<open>s\<close> itself when its length is between 1 and 100, and \<open>Sent an attachment\<close> when it
  is empty; the member \<open>icon\<close>, equal to \<open>fileUrl\<close>, exactly when \<open>fileType\<close> starts with
  \<open>image/\<close> and the event carries a \<open>fileUrl\<close> (an \<open>undefined\<close> icon is left out of the
  JSON text); and for a session id \<open>sid\<close> the url \<open>BASE_URL/chat/sid\<close>.
\<close>

theorem notification_payload_contents:
  assumes "(sub, p) \<in> set (attempts (snd (chatMessage B en socket arg st)))"
    and "destructure arg = Inr ev"
  shows "(text' ev = JStr s \<longrightarrow>
            map_of p (lit ''body'') =
              Some (JStr (if 100 < length s then take 100 s
                          else if 1 \<le> length s then s else lit ''Sent an attachment'')))
         \<and> map_of p (lit ''icon'') =
             (if optional_startsWith (fileType ev) (lit ''image/'') = Inr (JBool True)
                 \<and> fileUrl ev \<noteq> JUndefined
              then Some (fileUrl ev) else None)
         \<and> (sessionId ev = JStr sid \<longrightarrow>
              map_of p (lit ''url'') = Some (JStr (B @ lit ''/chat/'' @ sid)))"
proof -
  from chatMessage_attempted [OF assms(1)] assms(2)
  have "notification_payload B ev = Inr p" by auto
  then obtain sender_string sliced is_image session_string where
    sl: "optional_slice (text' ev) = Inr sliced"
    and im: "optional_startsWith (fileType ev) (lit ''image/'') = Inr is_image"
    and ss: "ToString (sessionId ev) = Inr session_string"
    and p: "p = JSON_stringify
           [(lit ''title'', JStr (lit ''New message from '' @ sender_string)),
            (lit ''body'', js_or sliced (JStr (lit ''Sent an attachment''))),
            (lit ''icon'', if truthy is_image then fileUrl ev else JUndefined),
            (lit ''url'', JStr (B @ lit ''/chat/'' @ session_string))]"
    by (rule notification_payload_members)
  have t: "truthy is_image \<longleftrightarrow> optional_startsWith (fileType ev) (lit ''image/'') = Inr (JBool True)"
    using im by (rule optional_startsWith_truthy)
  have body: "map_of p (lit ''body'') =
              Some (JStr (if 100 < length s then take 100 s
                          else if 1 \<le> length s then s else lit ''Sent an attachment''))"
    if "text' ev = JStr s"
  proof -
    from sl that have "sliced = JStr (take 100 s)" by simp
    then have "js_or sliced (JStr (lit ''Sent an attachment'')) =
               JStr (if 100 < length s then take 100 s
                     else if 1 \<le> length s then s else lit ''Sent an attachment'')"
      by (simp only: body_of_string)
    then show ?thesis
      unfolding p by (simp add: JSON_stringify_def member_names member_names [symmetric])
  qed
  have icon: "map_of p (lit ''icon'') =
             (if optional_startsWith (fileType ev) (lit ''image/'') = Inr (JBool True)
                 \<and> fileUrl ev \<noteq> JUndefined
              then Some (fileUrl ev) else None)"
    unfolding p using t
    by (simp add: JSON_stringify_def js_or_def member_names member_names [symmetric])
  have url: "map_of p (lit ''url'') = Some (JStr (B @ lit ''/chat/'' @ sid))"
    if "sessionId ev = JStr sid"
  proof -
    from ss that have "session_string = sid" by simp
    then show ?thesis
      unfolding p by (simp add: JSON_stringify_def js_or_def member_names member_names [symmetric])
  qed
  from body icon url show ?thesis by blast
qed

theorem notification_payload_witness:
  "(E1, photo_payload) \<in> set (attempts (snd (chatMessage base_url reliable 1 photo sample_server)))
   \<and> destructure photo = Inr photo_event
   \<and> map_of photo_payload (lit ''body'') = Some (JStr (replicate 100 (of_char CHR ''a'')))
   \<and> map_of photo_payload (lit ''icon'') = Some (JStr (lit ''http://files/1.png''))
   \<and> map_of photo_payload (lit ''url'') = Some (JStr (lit ''http://localhost:5002/chat/abc''))"
proof -
  have f: "\<not> find_rejects reliable (sessionId photo_event)"
    by (simp add: reliable_def)
  have a: "(E1, photo_payload) \<in> set (attempts (snd (chatMessage base_url reliable 1 photo sample_server)))"
    by (simp add: chatMessage_attempts [OF destructure_photo f payload_photo] photo_event_def find_abc)
  have t: "text' photo_event = JStr (replicate 101 (of_char CHR ''a''))"
    and s: "sessionId photo_event = JStr (lit ''abc'')"
    and u: "fileUrl photo_event = JStr (lit ''http://files/1.png'')"
    and i: "optional_startsWith (fileType photo_event) (lit ''image/'') = Inr (JBool True)"
    by (simp_all add: photo_event_def abc_def lit_def)
  from notification_payload_contents [OF a destructure_photo,
      of "replicate 101 (of_char CHR ''a'')" "lit ''abc''"] t s u i
  have "map_of photo_payload (lit ''body'') = Some (JStr (replicate 100 (of_char CHR ''a'')))
   \<and> map_of photo_payload (lit ''icon'') = Some (JStr (lit ''http://files/1.png''))
   \<and> map_of photo_payload (lit ''url'') = Some (JStr (lit ''http://localhost:5002/chat/abc''))"
    by (simp add: base_url_def lit_def)
  with a destructure_photo show ?thesis by blast
qed

text \<open>
  C4 as stated says that the icon is present if and only if \<open>fileType\<close> indicates an
  image. The event \<open>{sessionId: "abc", sender: "u1", text: "", fileType: "image/png"}\<close>
  has no \<open>fileUrl\<close> (the message schema gives that field a default, it is not required):
  its \<open>fileType\<close> starts with \<open>image/\<close>, it reaches push dispatch with an attempt for
  \<open>E1\<close> and one for \<open>E2\<close>, and the payload of both has no member \<open>icon\<close>.
\<close>

theorem icon_absent_counterexample:
  "get photo_without_url (lit ''fileType'') = Inr (JStr (lit ''image/png''))
   \<and> optional_startsWith (JStr (lit ''image/png'')) (lit ''image/'') = Inr (JBool True)
   \<and> attempts (snd (chatMessage base_url reliable 1 photo_without_url sample_server)) =
       [(E1, photo_without_url_payload), (E2, photo_without_url_payload)]
   \<and> map_of photo_without_url_payload (lit ''icon'') = None"
proof -
  let ?ev = "\<lparr>sessionId = abc, sender = JStr (lit ''u1''), text' = JStr [],
              fileUrl = JUndefined, fileType = JStr (lit ''image/png'')\<rparr>"
  have d: "destructure photo_without_url = Inr ?ev"
    by (simp add: destructure_def photo_without_url_def lit_def)
  have f: "\<not> find_rejects reliable (sessionId ?ev)"
    by (simp add: reliable_def)
  have p: "notification_payload base_url ?ev = Inr photo_without_url_payload"
    by (simp add: notification_payload_def photo_without_url_payload_def base_url_def
          JSON_stringify_def js_or_def abc_def lit_def)
  have 1: "get photo_without_url (lit ''fileType'') = Inr (JStr (lit ''image/png''))"
    by (simp add: photo_without_url_def lit_def)
  have 2: "optional_startsWith (JStr (lit ''image/png'')) (lit ''image/'') = Inr (JBool True)"
    by (simp add: lit_def)
  have 3: "attempts (snd (chatMessage base_url reliable 1 photo_without_url sample_server)) =
       [(E1, photo_without_url_payload), (E2, photo_without_url_payload)]"
    by (simp add: chatMessage_attempts [OF d f p] find_abc)
  have 4: "map_of photo_without_url_payload (lit ''icon'') = None"
    by (simp add: photo_without_url_payload_def lit_def)
  from 1 2 3 4 show ?thesis by blast
qed

text \<open>
  C5, as amended. For the subscriptions recorded for session S and one \<open>chatMessage\<close>
  event for S (one that carries an object): when the subscription query is answered and
  the payload \<open>p\<close> is built, the handler makes exactly one delivery attempt for each of
  them, in the order of the store, all with the one payload \<open>p\<close>; and this list of
  attempts is the same whatever the transport answers for any of them (\<open>sr\<close>) and
  whatever the store does with a delete (\<open>dr\<close>): no failure of one attempt removes or
  changes another. When the query is rejected or the construction of the payload
  throws, the \<open>catch\<close> around the dispatch logs \<open>Error sending push notifications:\<close> and
  no attempt is made.
\<close>

theorem one_attempt_per_subscription:
  assumes "destructure arg = Inr ev"
  shows "(\<not> find_rejects en (sessionId ev) \<and> notification_payload B ev = Inr p \<longrightarrow>
            attempts (snd (chatMessage B (en\<lparr>sendNotification_result := sr, deleteOne_rejects := dr\<rparr>)
                             socket arg st)) =
              map (\<lambda>sub. (sub, p)) (filter (\<lambda>d. sub_sessionId d = sessionId ev) (subscriptions st)))
         \<and> (find_rejects en (sessionId ev) \<or> notification_payload B ev = Inl e \<longrightarrow>
              attempts (snd (chatMessage B (en\<lparr>sendNotification_result := sr, deleteOne_rejects := dr\<rparr>)
                               socket arg st)) = []
              \<and> Console_error (lit ''Error sending push notifications:'')
                   \<in> set (snd (chatMessage B (en\<lparr>sendNotification_result := sr, deleteOne_rejects := dr\<rparr>)
                                  socket arg st)))"
proof -
  let ?en = "en\<lparr>sendNotification_result := sr, deleteOne_rejects := dr\<rparr>"
  have fr: "find_rejects ?en (sessionId ev) = find_rejects en (sessionId ev)"
    by simp
  have reached: "attempts (snd (chatMessage B ?en socket arg st)) =
                 map (\<lambda>sub. (sub, p)) (filter (\<lambda>d. sub_sessionId d = sessionId ev) (subscriptions st))"
    if "\<not> find_rejects en (sessionId ev) \<and> notification_payload B ev = Inr p"
  proof -
    from that have f: "\<not> find_rejects ?en (sessionId ev)" and n: "notification_payload B ev = Inr p"
      by simp_all
    from chatMessage_attempts [OF assms f n] show ?thesis
      by (simp add: Subscription_find_def)
  qed
  have skipped: "attempts (snd (chatMessage B ?en socket arg st)) = []
                 \<and> Console_error (lit ''Error sending push notifications:'')
                      \<in> set (snd (chatMessage B ?en socket arg st))"
    if "find_rejects en (sessionId ev) \<or> notification_payload B ev = Inl e"
  proof -
    from that have "find_rejects ?en (sessionId ev) \<or> notification_payload B ev = Inl e"
      by simp
    then have "snd (push_notifications B ?en ev (fst (persist ?en ev st))) =
               [Store_find (sessionId ev), Console_error (lit ''Error sending push notifications:'')]"
      by (simp only: push_notifications_not_reached snd_conv)
    then show ?thesis
      by (simp add: chatMessage_snd [OF assms] attempts_append persist_attempts broadcast_def)
  qed
  from reached skipped show ?thesis by blast
qed

theorem one_attempt_per_subscription_witness:
  "destructure hello = Inr hello_event
   \<and> \<not> find_rejects reliable (sessionId hello_event)
   \<and> notification_payload base_url hello_event = Inr hello_payload
   \<and> attempts (snd (chatMessage base_url
                       (reliable\<lparr>sendNotification_result := \<lambda>sub p. Rejected (JNum 410),
                                  deleteOne_rejects := \<lambda>e. True\<rparr>)
                       1 hello sample_server)) =
       [(E1, hello_payload), (E2, hello_payload)]
   \<and> find_rejects (reliable\<lparr>find_rejects := \<lambda>sid. True\<rparr>) (sessionId hello_event)
   \<and> attempts (snd (chatMessage base_url
                       (reliable\<lparr>find_rejects := \<lambda>sid. True,
                                  sendNotification_result := \<lambda>sub p. Delivered,
                                  deleteOne_rejects := \<lambda>e. False\<rparr>)
                       1 hello sample_server)) = []"
proof -
  have f: "\<not> find_rejects reliable (sessionId hello_event)"
    by (simp add: reliable_def)
  have g: "find_rejects (reliable\<lparr>find_rejects := \<lambda>sid. True\<rparr>) (sessionId hello_event)"
    by simp
  have subs: "filter (\<lambda>d. sub_sessionId d = sessionId hello_event) (subscriptions sample_server) = [E1, E2]"
    using find_abc by (simp add: Subscription_find_def hello_event_def)
  from one_attempt_per_subscription [OF destructure_hello,
      where en = reliable and B = base_url and p = hello_payload
        and sr = "\<lambda>sub p. Rejected (JNum 410)" and dr = "\<lambda>e. True" and socket = 1
        and st = sample_server] f payload_hello subs
  have 1: "attempts (snd (chatMessage base_url
                       (reliable\<lparr>sendNotification_result := \<lambda>sub p. Rejected (JNum 410),
                                  deleteOne_rejects := \<lambda>e. True\<rparr>)
                       1 hello sample_server)) =
       [(E1, hello_payload), (E2, hello_payload)]"
    by simp
  from one_attempt_per_subscription [OF destructure_hello,
      where en = "reliable\<lparr>find_rejects := \<lambda>sid. True\<rparr>" and B = base_url
        and sr = "\<lambda>sub p. Delivered" and dr = "\<lambda>e. False" and socket = 1
        and st = sample_server] g
  have 2: "attempts (snd (chatMessage base_url
                       (reliable\<lparr>find_rejects := \<lambda>sid. True,
                                  sendNotification_result := \<lambda>sub p. Delivered,
                                  deleteOne_rejects := \<lambda>e. False\<rparr>)
                       1 hello sample_server)) = []"
    by blast
  from destructure_hello f payload_hello 1 g 2 show ?thesis by blast
qed

text \<open>
  C5 as stated promises one attempt for each recorded subscription for every event. The
  event \<open>{sessionId: "abc", sender: "u1", text: 5, fileUrl: "", fileType: ""}\<close> is for
  session \<open>abc\<close>, for which \<open>E1\<close> and \<open>E2\<close> are recorded, and nothing outside the handler
  fails; a number has no \<open>slice\<close>, so that building the payload throws: the message is
  saved and broadcast, the \<open>catch\<close> logs, and no attempt is made.
\<close>

theorem attempts_skipped_counterexample:
  "destructure numeric_text = Inr numeric_text_event
   \<and> Subscription_find (sessionId numeric_text_event) (subscriptions sample_server) = [E1, E2]
   \<and> snd (chatMessage base_url reliable 1 numeric_text sample_server) =
       [Store_save (messageData numeric_text_event),
        Emit abc (lit ''chatMessage'') (messageData numeric_text_event) [1, 2],
        Store_find abc, Console_error (lit ''Error sending push notifications:'')]
   \<and> attempts (snd (chatMessage base_url reliable 1 numeric_text sample_server)) = []"
proof -
  have d: "destructure numeric_text = Inr numeric_text_event"
    by (simp add: destructure_def numeric_text_def numeric_text_event_def lit_def)
  have sid: "sessionId numeric_text_event = abc"
    by (simp add: numeric_text_event_def)
  have s: "Subscription_find (sessionId numeric_text_event) (subscriptions sample_server) = [E1, E2]"
    by (simp only: sid find_abc)
  have p: "snd (persist reliable numeric_text_event sample_server) = [Store_save (messageData numeric_text_event)]"
    by (simp add: persist_def reliable_def)
  have b: "broadcast numeric_text_event sample_server =
           Emit abc (lit ''chatMessage'') (messageData numeric_text_event) [1, 2]"
    by (simp add: broadcast_def io_to_def members_abc sid)
  have n: "notification_payload base_url numeric_text_event = Inl TypeError"
    by (simp add: notification_payload_def numeric_text_event_def abc_def)
  have q: "snd (push_notifications base_url reliable numeric_text_event
                  (fst (persist reliable numeric_text_event sample_server))) =
           [Store_find abc, Console_error (lit ''Error sending push notifications:'')]"
    using n by (simp add: push_notifications_def Let_def reliable_def sid)
  have t: "snd (chatMessage base_url reliable 1 numeric_text sample_server) =
       [Store_save (messageData numeric_text_event),
        Emit abc (lit ''chatMessage'') (messageData numeric_text_event) [1, 2],
        Store_find abc, Console_error (lit ''Error sending push notifications:'')]"
    by (simp add: chatMessage_snd [OF d] p b q)
  have a: "attempts (snd (chatMessage base_url reliable 1 numeric_text sample_server)) = []"
    unfolding t by simp
  from d s t a show ?thesis by blast
qed

text \<open>
  C6. Modelled from the spec as to the registry. For every \<open>chatMessage\<close> event for a
  session, the broadcast delivers the object with exactly the members \<open>sessionId\<close>,
  \<open>sender\<close>, \<open>text\<close>, \<open>fileUrl\<close>, \<open>fileType\<close> (no \<open>createdAt\<close>), under the name
  \<open>chatMessage\<close>, once to every connection joined to that session when the handler runs;
  a connection receives it if and only if it is a member of that session's room, so the
  sender's connection is included when it has joined, and a connection joined only to
  another session receives nothing.
\<close>

theorem broadcast_reaches_session_members:
  assumes "destructure arg = Inr ev"
  shows "deliveries (snd (chatMessage B en socket arg st)) =
           map (\<lambda>c. (c, lit ''chatMessage'',
                      JObj [(lit ''sessionId'', sessionId ev), (lit ''sender'', sender ev),
                            (lit ''text'', text' ev), (lit ''fileUrl'', fileUrl ev),
                            (lit ''fileType'', fileType ev)]))
               (list_of_dlist (rooms st (sessionId ev)))
         \<and> (\<forall>c. c \<in> fst ` set (deliveries (snd (chatMessage B en socket arg st)))
                  \<longleftrightarrow> Dlist.member (rooms st (sessionId ev)) c)
         \<and> distinct (map fst (deliveries (snd (chatMessage B en socket arg st))))"
proof -
  have d: "deliveries (snd (chatMessage B en socket arg st)) =
           map (\<lambda>c. (c, lit ''chatMessage'',
                      JObj [(lit ''sessionId'', sessionId ev), (lit ''sender'', sender ev),
                            (lit ''text'', text' ev), (lit ''fileUrl'', fileUrl ev),
                            (lit ''fileType'', fileType ev)]))
               (list_of_dlist (rooms st (sessionId ev)))"
    by (simp add: chatMessage_deliveries [OF assms] messageData_def io_to_def)
  have m: "\<forall>c. c \<in> fst ` set (deliveries (snd (chatMessage B en socket arg st)))
                  \<longleftrightarrow> Dlist.member (rooms st (sessionId ev)) c"
    unfolding d by (force simp: dlist_member_set)
  have o: "distinct (map fst (deliveries (snd (chatMessage B en socket arg st))))"
    unfolding d by (simp add: comp_def)
  from d m o show ?thesis by blast
qed

theorem broadcast_reaches_session_members_witness:
  "destructure hello = Inr hello_event
   \<and> deliveries (snd (chatMessage base_url reliable 1 hello sample_server)) =
       [(1, lit ''chatMessage'', hello), (2, lit ''chatMessage'', hello)]
   \<and> Dlist.member (rooms sample_server abc) 1
   \<and> \<not> Dlist.member (rooms sample_server abc) 3"
proof -
  have m: "Dlist.member (rooms sample_server abc) 1" "\<not> Dlist.member (rooms sample_server abc) 3"
    by (simp_all add: Dlist.member_def members_abc)
  from broadcast_reaches_session_members [OF destructure_hello, where B = base_url and en = reliable
      and socket = 1 and st = sample_server]
  have "deliveries (snd (chatMessage base_url reliable 1 hello sample_server)) =
       [(1, lit ''chatMessage'', hello), (2, lit ''chatMessage'', hello)]"
    by (simp add: hello_event_def hello_def members_abc)
  with m destructure_hello show ?thesis by blast
qed

text \<open>
  C7. For every registration request whose payload has no \<open>endpoint\<close> or no \<open>keys\<close>
  (the property reads as \<open>undefined\<close>), the answer is status 400 with the error
  \<open>Invalid subscription payload.\<close>, and the server, its stored subscriptions included,
  is unchanged.
\<close>

theorem save_subscription_rejects_missing_fields:
  assumes "get sub (lit ''endpoint'') = Inr JUndefined \<or> get sub (lit ''keys'') = Inr JUndefined"
  shows "save_subscription en sub st = (Inr (Status_json 400 ''Invalid subscription payload.''), st)"
proof (cases "sub = JUndefined \<or> sub = JNull")
  case True
  with assms show ?thesis by auto
next
  case False
  then obtain e k where e: "get sub (lit ''endpoint'') = Inr e" and k: "get sub (lit ''keys'') = Inr k"
    by (cases sub) auto
  from assms e k have "\<not> truthy e \<or> \<not> truthy k" by auto
  with e k show ?thesis by (auto simp: save_subscription_def)
qed

theorem save_subscription_rejects_witness:
  "get no_endpoint (lit ''endpoint'') = Inr JUndefined
   \<and> save_subscription reliable no_endpoint sample_server =
       (Inr (Status_json 400 ''Invalid subscription payload.''), sample_server)"
proof -
  have h: "get no_endpoint (lit ''endpoint'') = Inr JUndefined"
    by (simp add: no_endpoint_def lit_def)
  then have "get no_endpoint (lit ''endpoint'') = Inr JUndefined
             \<or> get no_endpoint (lit ''keys'') = Inr JUndefined" ..
  from save_subscription_rejects_missing_fields [OF this, where en = reliable and st = sample_server] h
  show ?thesis by blast
qed

text \<open>
  C8. Modelled from the spec as to the store's upsert. Endpoints stay unique: for every
  registration that is accepted (status 201) in a store whose endpoints are unique, the
  endpoints are unique afterwards; exactly one stored subscription has the registered
  endpoint, and it carries the new keys and session id; all subscriptions with other
  endpoints are as before; if the endpoint was stored already the number of
  subscriptions is unchanged (no second record), and if it was not, exactly the new
  record is appended.
\<close>

theorem registration_upserts_by_endpoint:
  assumes "save_subscription en sub st = (Inr (SendStatus 201), st')"
    and "get sub (lit ''endpoint'') = Inr e" and "get sub (lit ''keys'') = Inr k"
    and "get sub (lit ''sessionId'') = Inr s"
    and "distinct (map endpoint (subscriptions st))"
  shows "distinct (map endpoint (subscriptions st'))
         \<and> filter (\<lambda>d. endpoint d = e) (subscriptions st') = [\<lparr>endpoint = e, keys = k, sub_sessionId = s\<rparr>]
         \<and> filter (\<lambda>d. endpoint d \<noteq> e) (subscriptions st') = filter (\<lambda>d. endpoint d \<noteq> e) (subscriptions st)
         \<and> (e \<in> endpoint ` set (subscriptions st) \<longrightarrow>
              length (subscriptions st') = length (subscriptions st))
         \<and> (e \<notin> endpoint ` set (subscriptions st) \<longrightarrow>
              subscriptions st' = subscriptions st @ [\<lparr>endpoint = e, keys = k, sub_sessionId = s\<rparr>])"
proof -
  let ?u = "\<lparr>endpoint = e, keys = k, sub_sessionId = s\<rparr>"
  have st': "subscriptions st' = Subscription_findOneAndUpdate e ?u (subscriptions st)"
    using assms(1-4) by (auto simp: save_subscription_def Let_def split: if_splits)
  have eu: "endpoint ?u = e" by simp
  have m: "map endpoint (subscriptions st') =
           (if e \<in> endpoint ` set (subscriptions st) then map endpoint (subscriptions st)
            else map endpoint (subscriptions st) @ [e])"
    unfolding st' using eu by (rule findOneAndUpdate_endpoints)
  have 1: "distinct (map endpoint (subscriptions st'))"
    unfolding m using assms(5) by auto
  have 2: "filter (\<lambda>d. endpoint d = e) (subscriptions st') = [?u]"
    unfolding st' using eu assms(5) by (rule findOneAndUpdate_this)
  have 3: "filter (\<lambda>d. endpoint d \<noteq> e) (subscriptions st') = filter (\<lambda>d. endpoint d \<noteq> e) (subscriptions st)"
    unfolding st' using eu by (rule findOneAndUpdate_others)
  have 4: "e \<in> endpoint ` set (subscriptions st) \<longrightarrow> length (subscriptions st') = length (subscriptions st)"
    using m by (metis length_map)
  have 5: "e \<notin> endpoint ` set (subscriptions st) \<longrightarrow> subscriptions st' = subscriptions st @ [?u]"
    unfolding st' by (simp add: findOneAndUpdate_fresh)
  from 1 2 3 4 5 show ?thesis by blast
qed

theorem registration_upserts_witness:
  "fst (save_subscription reliable rebind_E1 sample_server) = Inr (SendStatus 201)
   \<and> distinct (map endpoint (subscriptions sample_server))
   \<and> JStr (lit ''E1'') \<in> endpoint ` set (subscriptions sample_server)
   \<and> filter (\<lambda>d. endpoint d = JStr (lit ''E1''))
        (subscriptions (snd (save_subscription reliable rebind_E1 sample_server))) =
       [\<lparr>endpoint = JStr (lit ''E1''), keys = new_keys, sub_sessionId = JStr (lit ''xyz'')\<rparr>]
   \<and> length (subscriptions (snd (save_subscription reliable rebind_E1 sample_server))) = 3"
proof -
  let ?r = "save_subscription reliable rebind_E1 sample_server"
  have e: "get rebind_E1 (lit ''endpoint'') = Inr (JStr (lit ''E1''))"
    and k: "get rebind_E1 (lit ''keys'') = Inr new_keys"
    and s: "get rebind_E1 (lit ''sessionId'') = Inr (JStr (lit ''xyz''))"
    by (simp_all add: rebind_E1_def lit_def)
  have t: "truthy (JStr (lit ''E1''))" "truthy new_keys"
    by (simp_all add: new_keys_def lit_def)
  have ok: "fst ?r = Inr (SendStatus 201)"
    using t by (simp add: save_subscription_def e k s reliable_def)
  then have run: "?r = (Inr (SendStatus 201), snd ?r)"
    by (metis prod.collapse)
  have u: "distinct (map endpoint (subscriptions sample_server))"
    by (simp add: sample_server_def E1_def E2_def E3_def lit_def)
  have m: "JStr (lit ''E1'') \<in> endpoint ` set (subscriptions sample_server)"
    by (simp add: sample_server_def E1_def)
  have n: "length (subscriptions sample_server) = 3"
    by (simp add: sample_server_def)
  from registration_upserts_by_endpoint [OF run e k s u] m n
  have "filter (\<lambda>d. endpoint d = JStr (lit ''E1'')) (subscriptions (snd ?r)) =
       [\<lparr>endpoint = JStr (lit ''E1''), keys = new_keys, sub_sessionId = JStr (lit ''xyz'')\<rparr>]
       \<and> length (subscriptions (snd ?r)) = 3"
    by presburger
  with ok u m show ?thesis by blast
qed

text \<open>
  C9. Modelled from the spec as to the registry. \<open>joinSession\<close> is idempotent: joining
  session S twice from connection \<open>c\<close> leaves the same rooms as joining once, \<open>c\<close> occurs
  exactly once among the members of S, and a subsequent \<open>chatMessage\<close> event for S is
  delivered to \<open>c\<close> exactly once.
\<close>

theorem joinSession_idempotent:
  "rooms (fst (joinSession c S (fst (joinSession c S st)))) = rooms (fst (joinSession c S st))
   \<and> count_list (list_of_dlist (rooms (fst (joinSession c S (fst (joinSession c S st)))) S)) c = 1
   \<and> (destructure arg = Inr ev \<and> sessionId ev = S \<longrightarrow>
        count_list (map fst (deliveries (snd (chatMessage B en socket arg
                                                (fst (joinSession c S (fst (joinSession c S st)))))))) c = 1)"
proof -
  let ?st2 = "fst (joinSession c S (fst (joinSession c S st)))"
  have r: "rooms ?st2 = rooms (fst (joinSession c S st))"
    by (simp add: joinSession_def socket_join_twice)
  have mem: "c \<in> set (list_of_dlist (rooms ?st2 S))"
    by (simp add: joinSession_def socket_join_def)
  have one: "count_list (list_of_dlist (rooms ?st2 S)) c = 1"
    using mem by (simp add: count_list_distinct)
  have del: "count_list (map fst (deliveries (snd (chatMessage B en socket arg ?st2)))) c = 1"
    if "destructure arg = Inr ev" and "sessionId ev = S"
  proof -
    have "map fst (deliveries (snd (chatMessage B en socket arg ?st2))) = list_of_dlist (rooms ?st2 S)"
      by (simp add: chatMessage_deliveries [OF that(1)] io_to_def that(2) comp_def)
    with one show ?thesis by simp
  qed
  from r one del show ?thesis by blast
qed

theorem joinSession_idempotent_witness:
  "destructure hello = Inr hello_event \<and> sessionId hello_event = abc
   \<and> list_of_dlist (rooms (fst (joinSession 7 abc (fst (joinSession 7 abc sample_server)))) abc) = [7, 1, 2]
   \<and> count_list (map fst (deliveries (snd (chatMessage base_url reliable 7 hello
        (fst (joinSession 7 abc (fst (joinSession 7 abc sample_server)))))))) 7 = 1"
proof -
  have s: "sessionId hello_event = abc" by (simp add: hello_event_def)
  have l: "list_of_dlist (rooms (fst (joinSession 7 abc (fst (joinSession 7 abc sample_server)))) abc) = [7, 1, 2]"
    by (simp add: joinSession_def socket_join_def members_abc)
  from joinSession_idempotent [where c = 7 and S = abc and st = sample_server and arg = hello
      and ev = hello_event and B = base_url and en = reliable and socket = 7] destructure_hello s
  have "count_list (map fst (deliveries (snd (chatMessage base_url reliable 7 hello
        (fst (joinSession 7 abc (fst (joinSession 7 abc sample_server)))))))) 7 = 1"
    by blast
  with destructure_hello s l show ?thesis by blast
qed

text \<open>
  C10. The validation at registration answers 400 exactly when \<open>endpoint\<close> or \<open>keys\<close> is
  falsy. A payload whose \<open>endpoint\<close> and \<open>keys\<close> are truthy passes it, whatever \<open>keys\<close>
  contains and whether or not there is a \<open>sessionId\<close>: the answer is then 201, or 500
  when the store rejects the update.
\<close>

theorem save_subscription_validation_exact:
  assumes "get sub (lit ''endpoint'') = Inr e" and "get sub (lit ''keys'') = Inr k"
    and "get sub (lit ''sessionId'') = Inr s"
  shows "(fst (save_subscription en sub st) = Inr (Status_json 400 ''Invalid subscription payload.'')
            \<longleftrightarrow> \<not> truthy e \<or> \<not> truthy k)
         \<and> (truthy e \<and> truthy k \<longrightarrow>
              fst (save_subscription en sub st) =
                Inr (if findOneAndUpdate_rejects en \<lparr>endpoint = e, keys = k, sub_sessionId = s\<rparr>
                     then Status_json 500 ''Failed to save subscription'' else SendStatus 201))"
  using assms by (auto simp: save_subscription_def Let_def)

theorem save_subscription_validation_witness:
  "get keys_incomplete (lit ''endpoint'') = Inr (JStr (lit ''E9''))
   \<and> get keys_incomplete (lit ''keys'') = Inr (JObj [])
   \<and> get keys_incomplete (lit ''sessionId'') = Inr JUndefined
   \<and> truthy (JStr (lit ''E9'')) \<and> truthy (JObj [])
   \<and> fst (save_subscription reliable keys_incomplete sample_server) = Inr (SendStatus 201)
   \<and> fst (save_subscription (reliable\<lparr>findOneAndUpdate_rejects := \<lambda>u. True\<rparr>) keys_incomplete sample_server) =
       Inr (Status_json 500 ''Failed to save subscription'')"
proof -
  have e: "get keys_incomplete (lit ''endpoint'') = Inr (JStr (lit ''E9''))"
    and k: "get keys_incomplete (lit ''keys'') = Inr (JObj [])"
    and s: "get keys_incomplete (lit ''sessionId'') = Inr JUndefined"
    by (simp_all add: keys_incomplete_def lit_def)
  have t: "truthy (JStr (lit ''E9'')) \<and> truthy (JObj [])"
    by (simp add: lit_def)
  have r: "\<not> findOneAndUpdate_rejects reliable
             \<lparr>endpoint = JStr (lit ''E9''), keys = JObj [], sub_sessionId = JUndefined\<rparr>"
    by (simp add: reliable_def)
  from save_subscription_validation_exact [OF e k s, where en = reliable and st = sample_server] t r
  have 1: "fst (save_subscription reliable keys_incomplete sample_server) = Inr (SendStatus 201)"
    by simp
  from save_subscription_validation_exact [OF e k s,
      where en = "reliable\<lparr>findOneAndUpdate_rejects := \<lambda>u. True\<rparr>" and st = sample_server] t
  have 2: "fst (save_subscription (reliable\<lparr>findOneAndUpdate_rejects := \<lambda>u. True\<rparr>) keys_incomplete sample_server) =
       Inr (Status_json 500 ''Failed to save subscription'')"
    by simp
  from e k s t 1 2 show ?thesis by blast
qed

end
